theory Spec2Isabelle
  imports Main "HOL-Library.AList"
begin

section \<open>UserEntity (modules/user/user.entity.ts)\<close>

text \<open>
  The interface \<open>User\<close> carries the public data of a user; \<open>UserEntity\<close> implements it
  and adds the private field \<open>password\<close>. The enumeration \<open>UserType\<close> is declared in a
  file that is not part of the sources, so it is a type parameter. A field that has
  never been assigned is \<open>undefined\<close> in the program and \<open>None\<close> here.
\<close>

record 't User =
  name :: string
  email :: string
  avatarPath :: string
  userType :: 't

record 't UserEntity = "'t User" +
  password :: "string option"

text \<open>The constructor copies the four public fields and leaves \<open>password\<close> alone.\<close>

definition UserEntity_new :: "'t User \<Rightarrow> 't UserEntity" where
  "UserEntity_new data =
     \<lparr> name = name data, email = email data, avatarPath = avatarPath data,
       userType = userType data, password = None \<rparr>"

text \<open>
  \<open>createSHA256\<close> lives in \<open>utils/common\<close>, outside the sources: it is the parameter
  \<open>sha\<close> of \<open>setPassword\<close>, an opaque function of the password and the salt.
\<close>

definition setPassword :: "(string \<Rightarrow> string \<Rightarrow> string) \<Rightarrow> 't UserEntity \<Rightarrow> string \<Rightarrow> string \<Rightarrow> 't UserEntity" where
  "setPassword sha this pw salt = this\<lparr> password := Some (sha pw salt) \<rparr>"

definition getPassword :: "'t UserEntity \<Rightarrow> string option" where
  "getPassword this = password this"

text \<open>
  The only operation of the class that writes a field after construction is
  \<open>setPassword\<close>; a life of an entity is the list of the (password, salt) pairs it was
  called with, oldest first.
\<close>

definition UserEntity_run :: "(string \<Rightarrow> string \<Rightarrow> string) \<Rightarrow> 't User \<Rightarrow> (string \<times> string) list \<Rightarrow> 't UserEntity" where
  "UserEntity_run sha data ops =
     foldl (\<lambda>this (pw, salt). setPassword sha this pw salt) (UserEntity_new data) ops"

section \<open>Client actions (store/action.ts): fetchOffer\<close>

text \<open>
  An \<open>AxiosError\<close> as the thunk reads it: \<open>response?.status\<close> is \<open>None\<close> when the error
  has no response (a network failure, or a thrown value that is no Axios error).
\<close>

record AxiosError =
  response_status :: "nat option"
  error_message :: string

datatype ('e, 'a) promise = Rejected 'e | Fulfilled 'a

text \<open>
  Modelled from the spec: the constants of \<open>../const\<close> (\<open>ApiRoute\<close>, \<open>AppRoute\<close>,
  \<open>HttpCode\<close>) are not in the sources. \<open>HttpCode.NotFound\<close> is the HTTP status 404 that
  the existence check of the server answers with; the two routes are only names.
\<close>

definition HttpCode_NotFound :: nat where
  "HttpCode_NotFound = 404"

definition ApiRoute_Offers :: string where
  "ApiRoute_Offers = ''/offers''"

definition AppRoute_NotFound :: string where
  "AppRoute_NotFound = ''/404''"

text \<open>
  The thunk takes the adapter \<open>adaptOfferToClient\<close> (not in the sources) and the
  answer of \<open>api.get\<close> to a URL as parameters. \<open>history\<close> is the list of the routes
  pushed so far; the thunk returns its promise and the history afterwards.
\<close>

definition fetchOffer ::
  "('dto \<Rightarrow> 'offer) \<Rightarrow> (string \<Rightarrow> AxiosError + 'dto) \<Rightarrow> string \<Rightarrow> string list
     \<Rightarrow> (AxiosError, 'offer) promise \<times> string list" where
  "fetchOffer adaptOfferToClient api_get ident history =
     (case api_get (ApiRoute_Offers @ ''/'' @ ident) of
        Inr data \<Rightarrow> (Fulfilled (adaptOfferToClient data), history)
      | Inl error \<Rightarrow>
          (let history1 =
                 (if response_status error = Some HttpCode_NotFound
                  then history @ [AppRoute_NotFound] else history)
           in (Rejected error, history1)))"

section \<open>Values, errors and responses of the server\<close>

text \<open>
  Request bodies, documents and response bodies are JavaScript values. An object is
  the list of its properties in insertion order.
\<close>

datatype json =
    JUndefined | JNull | JBool bool | JNum int | JStr string
  | JArr "json list" | JObj "(string \<times> json) list"

type_synonym obj = "(string \<times> json) list"

text \<open>\<open>o.k\<close>: the property of an object, \<open>undefined\<close> when it is missing.\<close>

definition get_field :: "json \<Rightarrow> string \<Rightarrow> json" where
  "get_field v k =
     (case v of
        JObj props \<Rightarrow> (case map_of props k of Some x \<Rightarrow> x | None \<Rightarrow> JUndefined)
      | _ \<Rightarrow> JUndefined)"

text \<open>\<open>{...v}\<close>: the own properties of an object; nothing for \<open>undefined\<close> and \<open>null\<close>.\<close>

definition spread :: "json \<Rightarrow> obj" where
  "spread v = (case v of JObj props \<Rightarrow> props | _ \<Rightarrow> [])"

text \<open>\<open>!v\<close> for the values a service returns: a document, an array or \<open>null\<close>.\<close>

definition falsy :: "json \<Rightarrow> bool" where
  "falsy v = (v = JUndefined \<or> v = JNull \<or> v = JBool False \<or> v = JNum 0 \<or> v = JStr [])"

text \<open>The members of \<open>StatusCodes\<close> (package http-status-codes) that the controller uses.\<close>

definition OK :: nat where "OK = 200"
definition CREATED :: nat where "CREATED = 201"
definition NO_CONTENT :: nat where "NO_CONTENT = 204"
definition BAD_REQUEST :: nat where "BAD_REQUEST = 400"
definition UNAUTHORIZED :: nat where "UNAUTHORIZED = 401"
definition NOT_FOUND :: nat where "NOT_FOUND = 404"
definition NOT_IMPLEMENTED :: nat where "NOT_IMPLEMENTED = 501"

text \<open>
  What a middleware or a handler can throw: an \<open>HttpError\<close> (status code, message,
  originating component), or the \<open>TypeError\<close> of JavaScript on reading a property of
  \<open>undefined\<close>.
\<close>

datatype failure = HttpError nat string string | TypeError string

text \<open>A response that was sent: status code and body.\<close>

type_synonym response = "nat \<times> json"

type_synonym outcome = "failure + response"

section \<open>Response mapping (fillDTO and the response classes)\<close>

text \<open>
  Modelled from the spec: \<open>fillDTO\<close> (\<open>utils/common\<close>) and the response classes are not
  in the sources. By the spec the mapper "converts an internal entity (or array of
  entities) into a plain response object containing only public fields, discarding
  write-only fields (e.g., password hash)". A response class is the list of the
  property names it exposes; identifiers are already strings in this model.
\<close>

definition fillOne :: "string list \<Rightarrow> json \<Rightarrow> json" where
  "fillOne cls v =
     (case v of JObj props \<Rightarrow> JObj (filter (\<lambda>(k, x). k \<in> set cls) props) | _ \<Rightarrow> v)"

definition fillDTO :: "string list \<Rightarrow> json \<Rightarrow> json" where
  "fillDTO cls v = (case v of JArr xs \<Rightarrow> JArr (map (fillOne cls) xs) | _ \<Rightarrow> fillOne cls v)"

text \<open>
  Modelled from the spec: the response classes, from the data model of the spec (an
  offer has title, description, city, price, type, images, premium and favorite flags
  and an owning user; a comment has a rating and a text; a user has name, email,
  avatar and user type, and its password hash is never exposed).
\<close>

definition OfferResponse :: "string list" where
  "OfferResponse = [''id'', ''title'', ''description'', ''city'', ''previewImage'', ''offerImages'',
     ''isPremium'', ''isFavorite'', ''type'', ''price'', ''userId'']"

definition OffersResponse :: "string list" where
  "OffersResponse = [''id'', ''title'', ''city'', ''previewImage'', ''isPremium'', ''isFavorite'',
     ''type'', ''price'']"

definition CommentResponse :: "string list" where
  "CommentResponse = [''id'', ''text'', ''rating'', ''userId'']"

definition UploadImageResponse :: "string list" where
  "UploadImageResponse = [''previewImage'']"

definition UploadImagesResponse :: "string list" where
  "UploadImagesResponse = [''offerImages'']"

definition UserResponse :: "string list" where
  "UserResponse = [''id'', ''name'', ''email'', ''avatarPath'', ''userType'']"

text \<open>
  The plain object of a stored user: the identifier the database gave it and every
  field of the entity, the private \<open>password\<close> included. \<open>ut\<close> renders the user type.
\<close>

definition UserEntity_plain :: "string \<Rightarrow> ('t \<Rightarrow> string) \<Rightarrow> 't UserEntity \<Rightarrow> json" where
  "UserEntity_plain ident ut u =
     JObj [(''id'', JStr ident), (''name'', JStr (name u)), (''email'', JStr (email u)),
           (''avatarPath'', JStr (avatarPath u)),
           (''password'', (case password u of Some h \<Rightarrow> JStr h | None \<Rightarrow> JUndefined)),
           (''userType'', JStr (ut (userType u)))]"

definition keys :: "json \<Rightarrow> string list" where
  "keys v = map fst (spread v)"

section \<open>The database behind the services\<close>

text \<open>
  Modelled from the spec: the document database and the services over it
  (\<open>OfferServiceInterface\<close>, \<open>CommentServiceInterface\<close>) are not in the sources. By the
  spec the offer service exposes \<open>find(limit)\<close>, \<open>findById(id)\<close>, \<open>create(payload)\<close>,
  \<open>updateById(id, patch)\<close>, \<open>deleteById(id)\<close>, \<open>exists(id)\<close>, \<open>findPremium(city, limit)\<close>
  and \<open>findFavorite()\<close>, and "each returns the entity or a nullable/absent result".
  The controller calls the comment service's \<open>findByOfferId\<close> and \<open>deleteByOfferId\<close>,
  and deleting by offer id is what removes "all comments referencing that offer id".

  A stored offer is its identifier and its fields; a stored comment is its fields,
  with the offer it refers to under \<open>offerId\<close>. Every call of a service appends an entry
  to \<open>calls\<close>, so that which operations a handler invoked, with which arguments and in
  which order, can be read off the world afterwards.
\<close>

datatype service_call =
    OfferFind json
  | OfferFindById json
  | OfferCreate json
  | OfferUpdateById json json
  | OfferDeleteById json
  | OfferExists json
  | OfferFindPremium json json
  | OfferFindFavorite "json list"
  | CommentFindByOfferId json
  | CommentDeleteByOfferId json

record world =
  offers :: "(string \<times> obj) list"
  comments :: "obj list"
  next_id :: nat
  calls :: "service_call list"

definition called :: "service_call \<Rightarrow> world \<Rightarrow> world" where
  "called c s = s\<lparr> calls := calls s @ [c] \<rparr>"

text \<open>
  Identifiers are object ids: 24 hexadecimal digits. The database numbers the
  documents it creates; \<open>object_id_of\<close> writes the number with 24 digits.
\<close>

definition is_hex_digit :: "char \<Rightarrow> bool" where
  "is_hex_digit c = (c \<in> set ''0123456789abcdefABCDEF'')"

definition isValidObjectId :: "string \<Rightarrow> bool" where
  "isValidObjectId v = (length v = 24 \<and> list_all is_hex_digit v)"

definition hex_digit :: "nat \<Rightarrow> char" where
  "hex_digit d = ''0123456789abcdef'' ! (d mod 16)"

fun hex_string :: "nat \<Rightarrow> nat \<Rightarrow> string" where
  "hex_string 0 n = []"
| "hex_string (Suc k) n = hex_string k (n div 16) @ [hex_digit n]"

definition object_id_of :: "nat \<Rightarrow> string" where
  "object_id_of n = hex_string 24 n"

text \<open>The document a service hands out: the stored fields and the identifier as \<open>id\<close>.\<close>

definition entity :: "string \<times> obj \<Rightarrow> json" where
  "entity d = JObj ((''id'', JStr (fst d)) # snd d)"

text \<open>
  A limit arrives as the text of a query or route parameter: a decimal number limits
  the result, anything else (\<open>undefined\<close> above all) does not.
\<close>

definition digit_val :: "char \<Rightarrow> nat" where
  "digit_val c = of_char c - of_char CHR ''0''"

definition limit_of :: "json \<Rightarrow> nat option" where
  "limit_of v =
     (case v of
        JStr ds \<Rightarrow>
          (if ds \<noteq> [] \<and> list_all (\<lambda>c. c \<in> set ''0123456789'') ds
           then Some (foldl (\<lambda>n c. 10 * n + digit_val c) 0 ds) else None)
      | JNum n \<Rightarrow> (if 0 \<le> n then Some (nat n) else None)
      | _ \<Rightarrow> None)"

definition limited :: "json \<Rightarrow> 'a list \<Rightarrow> 'a list" where
  "limited lim xs = (case limit_of lim of Some n \<Rightarrow> take n xs | None \<Rightarrow> xs)"

definition lookup_offer :: "json \<Rightarrow> world \<Rightarrow> (string \<times> obj) option" where
  "lookup_offer ident s =
     (case ident of
        JStr i \<Rightarrow> (case map_of (offers s) i of Some props \<Rightarrow> Some (i, props) | None \<Rightarrow> None)
      | _ \<Rightarrow> None)"

definition offer_find :: "json \<Rightarrow> world \<Rightarrow> json \<times> world" where
  "offer_find lim s = (JArr (limited lim (map entity (offers s))), called (OfferFind lim) s)"

definition offer_findById :: "json \<Rightarrow> world \<Rightarrow> json \<times> world" where
  "offer_findById ident s =
     ((case lookup_offer ident s of Some d \<Rightarrow> entity d | None \<Rightarrow> JNull),
      called (OfferFindById ident) s)"

text \<open>
  \<open>create\<close> stores the properties of the payload (\<open>id\<close> is the database's to give, a
  property of that name is dropped) under the next identifier.
\<close>

definition offer_create :: "json \<Rightarrow> world \<Rightarrow> json \<times> world" where
  "offer_create payload s =
     (let d = (object_id_of (next_id s), AList.delete ''id'' (spread payload))
      in (entity d,
          called (OfferCreate payload) (s\<lparr> offers := offers s @ [d], next_id := Suc (next_id s) \<rparr>)))"

text \<open>
  \<open>updateById\<close> writes the defined properties of the patch over the stored fields and
  returns the updated document, or \<open>null\<close> when there is no such offer.
\<close>

definition patched :: "obj \<Rightarrow> obj \<Rightarrow> obj" where
  "patched props patch =
     foldl (\<lambda>f (k, v). if v = JUndefined \<or> k = ''id'' then f else AList.update k v f) props patch"

definition offer_updateById :: "json \<Rightarrow> json \<Rightarrow> world \<Rightarrow> json \<times> world" where
  "offer_updateById ident patch s =
     (case lookup_offer ident s of
        None \<Rightarrow> (JNull, called (OfferUpdateById ident patch) s)
      | Some (i, props) \<Rightarrow>
          (let d = (i, patched props (spread patch))
           in (entity d,
               called (OfferUpdateById ident patch)
                 (s\<lparr> offers := map (\<lambda>x. if fst x = i then d else x) (offers s) \<rparr>))))"

text \<open>\<open>deleteById\<close> removes the offer and returns it, or \<open>null\<close> when there is none.\<close>

definition offer_deleteById :: "json \<Rightarrow> world \<Rightarrow> json \<times> world" where
  "offer_deleteById ident s =
     (case lookup_offer ident s of
        None \<Rightarrow> (JNull, called (OfferDeleteById ident) s)
      | Some d \<Rightarrow>
          (entity d,
           called (OfferDeleteById ident)
             (s\<lparr> offers := filter (\<lambda>x. fst x \<noteq> fst d) (offers s) \<rparr>)))"

definition offer_exists :: "json \<Rightarrow> world \<Rightarrow> bool \<times> world" where
  "offer_exists ident s = (lookup_offer ident s \<noteq> None, called (OfferExists ident) s)"

definition offer_findPremium :: "json \<Rightarrow> json \<Rightarrow> world \<Rightarrow> json \<times> world" where
  "offer_findPremium city lim s =
     (JArr (limited lim (map entity
        (filter (\<lambda>d. map_of (snd d) ''city'' = Some city \<and> map_of (snd d) ''isPremium'' = Some (JBool True))
           (offers s)))),
      called (OfferFindPremium city lim) s)"

text \<open>
  \<open>findFavorite\<close> is called with one argument by the early controller and with none by
  the later one: \<open>args\<close> is the list of the arguments of the call.
\<close>

definition offer_findFavorite :: "json list \<Rightarrow> world \<Rightarrow> json \<times> world" where
  "offer_findFavorite args s =
     (JArr (limited (case args of [] \<Rightarrow> JUndefined | lim # _ \<Rightarrow> lim) (map entity
        (filter (\<lambda>d. map_of (snd d) ''isFavorite'' = Some (JBool True)) (offers s)))),
      called (OfferFindFavorite args) s)"

definition comment_findByOfferId :: "json \<Rightarrow> world \<Rightarrow> json \<times> world" where
  "comment_findByOfferId ident s =
     (JArr (map JObj (filter (\<lambda>c. map_of c ''offerId'' = Some ident) (comments s))),
      called (CommentFindByOfferId ident) s)"

definition comment_deleteByOfferId :: "json \<Rightarrow> world \<Rightarrow> json \<times> world" where
  "comment_deleteByOfferId ident s =
     (JNum (int (length (filter (\<lambda>c. map_of c ''offerId'' = Some ident) (comments s)))),
      called (CommentDeleteByOfferId ident)
        (s\<lparr> comments := filter (\<lambda>c. map_of c ''offerId'' \<noteq> Some ident) (comments s) \<rparr>))"

section \<open>Requests, middlewares and routing\<close>

datatype HttpMethod = Get | Post | Delete | Patch

text \<open>
  A request as the middlewares and handlers read it. \<open>req_url\<close> is the path below the
  mount point of the controller (\<open>/offers\<close>); \<open>params\<close> is filled by the router from the
  pattern of the route; \<open>user\<close> is the id of the authenticated user, \<open>None\<close> for an
  unauthenticated request; \<open>multipart\<close> lists the files of a multipart body as (form
  field, file name); \<open>file\<close> and \<open>files\<close> are what an upload middleware attached, \<open>None\<close>
  standing for \<open>undefined\<close>.
\<close>

record request =
  req_method :: HttpMethod
  req_url :: string
  params :: "(string \<times> string) list"
  query :: "(string \<times> string) list"
  body :: json
  user :: "string option"
  multipart :: "(string \<times> string) list"
  "file" :: "string option"
  files :: "string list option"

definition dict_get :: "(string \<times> string) list \<Rightarrow> string \<Rightarrow> json" where
  "dict_get d k = (case map_of d k of Some v \<Rightarrow> JStr v | None \<Rightarrow> JUndefined)"

text \<open>A value inside a template string.\<close>

definition to_text :: "json \<Rightarrow> string" where
  "to_text v = (case v of JStr t \<Rightarrow> t | JNull \<Rightarrow> ''null'' | JUndefined \<Rightarrow> ''undefined'' | _ \<Rightarrow> ''[object Object]'')"

text \<open>
  Modelled from the spec: the middleware classes (\<open>common/middlewares\<close>) are not in the
  sources. By the spec each is "a single-purpose predicate/transform over the request,
  invoked in array order before the handler":
  the private-route gate "rejects unauthenticated requests with 401",
  the object-id validator "rejects malformed identifiers with a client error before any
  database access",
  the DTO validator "rejects payloads failing schema validation with a structured
  400-class error listing violations",
  the existence check "performs a lookup and rejects with 404 if absent",
  the upload middlewares "stream one or more files to storage and attach filenames to
  the request" (the storage itself is outside the model).
  The DTO classes with their validation rules are not in the sources either: a class
  is the function that lists the violations of a body. The existence check takes the
  \<open>exists\<close> operation of the service it is built with.
\<close>

datatype middleware =
    PrivateRouteMiddleware
  | ValidateObjectIdMiddleware string
  | ValidateDtoMiddleware "json \<Rightarrow> string list"
  | DocumentExistsMiddleware "json \<Rightarrow> world \<Rightarrow> bool \<times> world" string string
  | UploadFileMiddleware string string
  | UploadFilesMiddleware string string

fun execute :: "middleware \<Rightarrow> request \<Rightarrow> world \<Rightarrow> (failure + request) \<times> world" where
  "execute PrivateRouteMiddleware req s =
     (if user req = None
      then (Inl (HttpError UNAUTHORIZED ''Unauthorized'' ''PrivateRouteMiddleware''), s)
      else (Inr req, s))"
| "execute (ValidateObjectIdMiddleware param) req s =
     (case map_of (params req) param of
        Some v \<Rightarrow>
          (if isValidObjectId v then (Inr req, s)
           else (Inl (HttpError BAD_REQUEST (v @ '' is invalid ObjectID'') ''ValidateObjectIdMiddleware''), s))
      | None \<Rightarrow>
          (Inl (HttpError BAD_REQUEST ''undefined is invalid ObjectID'' ''ValidateObjectIdMiddleware''), s))"
| "execute (ValidateDtoMiddleware dto) req s =
     (if dto (body req) = [] then (Inr req, s)
      else (Inl (HttpError BAD_REQUEST ''Validation error'' ''ValidateDtoMiddleware''), s))"
| "execute (DocumentExistsMiddleware exists entityName paramName) req s =
     (case exists (dict_get (params req) paramName) s of
        (True, s1) \<Rightarrow> (Inr req, s1)
      | (False, s1) \<Rightarrow>
          (Inl (HttpError NOT_FOUND
                  (entityName @ '' with '' @ to_text (dict_get (params req) paramName) @ '' not found.'')
                  ''DocumentExistsMiddleware''), s1))"
| "execute (UploadFileMiddleware uploadDirectory fieldName) req s =
     (Inr (req\<lparr> file := map_of (multipart req) fieldName \<rparr>), s)"
| "execute (UploadFilesMiddleware uploadDirectory fieldName) req s =
     (Inr (req\<lparr> files := Some (map snd (filter (\<lambda>part. fst part = fieldName) (multipart req))) \<rparr>), s)"

text \<open>
  The chain runs in the order of the array; the first middleware that throws ends it
  and the handler is not reached.
\<close>

fun run_chain :: "middleware list \<Rightarrow> request \<Rightarrow> world \<Rightarrow> (failure + request) \<times> world" where
  "run_chain [] req s = (Inr req, s)"
| "run_chain (m # ms) req s =
     (case execute m req s of
        (Inl e, s1) \<Rightarrow> (Inl e, s1)
      | (Inr req1, s1) \<Rightarrow> run_chain ms req1 s1)"

text \<open>A route as \<open>addRoute\<close> takes it; \<open>middlewares\<close> is empty when the property is left out.\<close>

record route =
  path :: string
  "method" :: HttpMethod
  handler :: "request \<Rightarrow> world \<Rightarrow> outcome \<times> world"
  middlewares :: "middleware list"

text \<open>
  Modelled from the spec: the base class \<open>Controller\<close> (\<open>addRoute\<close>, \<open>send\<close>, \<open>ok\<close>,
  \<open>created\<close>, \<open>noContent\<close>) is not in the sources, and the router is the web framework's.
  "Router dispatches to controller's route entry, middleware chain executes in declared
  order (may short-circuit with an error response), controller handler invokes one or
  more services". The framework's router tries the routes in the order in which they
  were added and takes the first whose method and path pattern match; a pattern
  segment \<open>:name\<close> matches any one segment of the path and binds the parameter.
\<close>

fun split_on :: "char \<Rightarrow> string \<Rightarrow> string list" where
  "split_on c [] = [[]]"
| "split_on c (x # xs) =
     (if x = c then [] # split_on c xs
      else (case split_on c xs of w # ws \<Rightarrow> (x # w) # ws | [] \<Rightarrow> [[x]]))"

definition segments :: "string \<Rightarrow> string list" where
  "segments p = filter (\<lambda>seg. seg \<noteq> []) (split_on CHR ''/'' p)"

fun match_segments :: "string list \<Rightarrow> string list \<Rightarrow> (string \<times> string) list option" where
  "match_segments [] [] = Some []"
| "match_segments (p # ps) (x # xs) =
     (case p of
        c # nm \<Rightarrow>
          (if c = CHR '':'' then map_option (\<lambda>rest. (nm, x) # rest) (match_segments ps xs)
           else if p = x then match_segments ps xs else None)
      | [] \<Rightarrow> None)"
| "match_segments _ _ = None"

definition match_route :: "route \<Rightarrow> request \<Rightarrow> (string \<times> string) list option" where
  "match_route r req =
     (if method r = req_method req then match_segments (segments (path r)) (segments (req_url req))
      else None)"

fun dispatch :: "route list \<Rightarrow> request \<Rightarrow> (route \<times> request) option" where
  "dispatch [] req = None"
| "dispatch (r # rs) req =
     (case match_route r req of
        Some ps \<Rightarrow> Some (r, req\<lparr> params := ps \<rparr>)
      | None \<Rightarrow> dispatch rs req)"

text \<open>
  Handling a request: the matching route's middlewares, then its handler. A request
  that no route of the controller matches is answered 404 by the framework.
\<close>

definition handle :: "route list \<Rightarrow> request \<Rightarrow> world \<Rightarrow> outcome \<times> world" where
  "handle routes req s =
     (case dispatch routes req of
        None \<Rightarrow> (Inr (NOT_FOUND, JUndefined), s)
      | Some (r, req0) \<Rightarrow>
          (case run_chain (middlewares r) req0 s of
             (Inl e, s1) \<Rightarrow> (Inl e, s1)
           | (Inr req1, s1) \<Rightarrow> handler r req1 s1))"

definition send :: "nat \<Rightarrow> json \<Rightarrow> world \<Rightarrow> outcome \<times> world" where
  "send statusCode data s = (Inr (statusCode, data), s)"

definition ok :: "json \<Rightarrow> world \<Rightarrow> outcome \<times> world" where
  "ok data s = send OK data s"

definition created :: "json \<Rightarrow> world \<Rightarrow> outcome \<times> world" where
  "created data s = send CREATED data s"

definition noContent :: "json \<Rightarrow> world \<Rightarrow> outcome \<times> world" where
  "noContent data s = send NO_CONTENT data s"

section \<open>OfferController, early revision (modules/offer/offer.controller.ts)\<close>

text \<open>
  The file holds two revisions of the controller. The early one adds its routes
  without middlewares and checks for absent offers in the handlers.
\<close>

definition early_show :: "request \<Rightarrow> world \<Rightarrow> outcome \<times> world" where
  "early_show req s =
     (let offerId = dict_get (params req) ''offerId'';
          (offer, s1) = offer_findById offerId s
      in if falsy offer
         then (Inl (HttpError NOT_IMPLEMENTED ''Not implemented'' ''OfferContorller''), s1)
         else ok (fillDTO OfferResponse offer) s1)"

definition early_index :: "request \<Rightarrow> world \<Rightarrow> outcome \<times> world" where
  "early_index req s =
     (let (offers, s1) = offer_find (dict_get (params req) ''limit'') s
      in ok (fillDTO OfferResponse offers) s1)"

definition early_create :: "request \<Rightarrow> world \<Rightarrow> outcome \<times> world" where
  "early_create req s =
     (let (result, s1) = offer_create (body req) s;
          (offer, s2) = offer_findById (get_field result ''id'') s1
      in created (fillDTO OfferResponse offer) s2)"

definition early_delete :: "request \<Rightarrow> world \<Rightarrow> outcome \<times> world" where
  "early_delete req s =
     (let offerId = dict_get (params req) ''offerId'';
          (offer, s1) = offer_deleteById offerId s
      in if falsy offer
         then (Inl (HttpError NOT_FOUND (''Offer with id '' @ to_text offerId @ '' not found.'')
                      ''OfferContorller''), s1)
         else (let (u, s2) = comment_deleteByOfferId offerId s1
               in noContent offer s2))"

definition early_update :: "request \<Rightarrow> world \<Rightarrow> outcome \<times> world" where
  "early_update req s =
     (let (updatedOffer, s1) = offer_updateById (dict_get (params req) ''offerId'') (body req) s
      in if falsy updatedOffer
         then (Inl (HttpError NOT_FOUND
                      (''Offer with id '' @ to_text (dict_get (params req) ''offerId'') @ '' not found.'')
                      ''OfferController''), s1)
         else ok (fillDTO OfferResponse updatedOffer) s1)"

definition early_getComments :: "request \<Rightarrow> world \<Rightarrow> outcome \<times> world" where
  "early_getComments req s =
     (let (found, s1) = offer_exists (dict_get (params req) ''offerId'') s
      in if \<not> found
         then (Inl (HttpError NOT_FOUND
                      (''Offer with id '' @ to_text (dict_get (params req) ''offerId'') @ '' not found.'')
                      ''OfferController''), s1)
         else (let (comments, s2) = comment_findByOfferId (dict_get (params req) ''offerId'') s1
               in ok (fillDTO CommentResponse comments) s2))"

definition early_findPremium :: "request \<Rightarrow> world \<Rightarrow> outcome \<times> world" where
  "early_findPremium req s =
     (let (offers, s1) = offer_findPremium (dict_get (params req) ''city'') (dict_get (query req) ''limit'') s;
          offersResponse = fillDTO OfferResponse offers
      in send OK offersResponse s1)"

definition early_findFavorite :: "request \<Rightarrow> world \<Rightarrow> outcome \<times> world" where
  "early_findFavorite req s =
     (let (offers, s1) = offer_findFavorite [dict_get (params req) ''limit''] s;
          offersResponse = fillDTO OfferResponse offers
      in send OK offersResponse s1)"

text \<open>The routes in the order in which the constructor adds them.\<close>

definition OfferController_early :: "route list" where
  "OfferController_early =
     [\<lparr> path = ''/:offerId'', method = Get, handler = early_show, middlewares = [] \<rparr>,
      \<lparr> path = ''/'', method = Get, handler = early_index, middlewares = [] \<rparr>,
      \<lparr> path = ''/'', method = Post, handler = early_create, middlewares = [] \<rparr>,
      \<lparr> path = ''/:offerId'', method = Delete, handler = early_delete, middlewares = [] \<rparr>,
      \<lparr> path = ''/:offerId'', method = Patch, handler = early_update, middlewares = [] \<rparr>,
      \<lparr> path = ''/:offerId/comments'', method = Get, handler = early_getComments, middlewares = [] \<rparr>,
      \<lparr> path = ''/premium/:city'', method = Get, handler = early_findPremium, middlewares = [] \<rparr>,
      \<lparr> path = ''/favorite'', method = Get, handler = early_findFavorite, middlewares = [] \<rparr>]"

section \<open>OfferController, later revision\<close>

text \<open>
  The later revision leaves validation, the existence check and authentication to the
  middlewares of each route; its handlers do not look at what the services return.
\<close>

definition later_show :: "request \<Rightarrow> world \<Rightarrow> outcome \<times> world" where
  "later_show req s =
     (let offerId = dict_get (params req) ''offerId'';
          (offer, s1) = offer_findById offerId s
      in ok (fillDTO OfferResponse offer) s1)"

definition later_index :: "request \<Rightarrow> world \<Rightarrow> outcome \<times> world" where
  "later_index req s =
     (let (offers, s1) = offer_find (dict_get (query req) ''limit'') s
      in ok (fillDTO OffersResponse offers) s1)"

text \<open>\<open>user.id\<close> of a request without a user is a TypeError.\<close>

definition later_create :: "request \<Rightarrow> world \<Rightarrow> outcome \<times> world" where
  "later_create req s =
     (case user req of
        None \<Rightarrow> (Inl (TypeError ''Cannot read properties of undefined (reading id)''), s)
      | Some userId \<Rightarrow>
          (let (result, s1) = offer_create (JObj (AList.update ''userId'' (JStr userId) (spread (body req)))) s;
               (offer, s2) = offer_findById (get_field result ''id'') s1
           in created (fillDTO OfferResponse offer) s2))"

definition later_delete :: "request \<Rightarrow> world \<Rightarrow> outcome \<times> world" where
  "later_delete req s =
     (let offerId = dict_get (params req) ''offerId'';
          (offer, s1) = offer_deleteById offerId s;
          (u, s2) = comment_deleteByOfferId offerId s1
      in noContent offer s2)"

definition later_update :: "request \<Rightarrow> world \<Rightarrow> outcome \<times> world" where
  "later_update req s =
     (let (updatedOffer, s1) = offer_updateById (dict_get (params req) ''offerId'') (body req) s
      in ok (fillDTO OfferResponse updatedOffer) s1)"

definition later_getComments :: "request \<Rightarrow> world \<Rightarrow> outcome \<times> world" where
  "later_getComments req s =
     (let (comments, s1) = comment_findByOfferId (dict_get (params req) ''offerId'') s
      in ok (fillDTO CommentResponse comments) s1)"

definition later_findPremium :: "request \<Rightarrow> world \<Rightarrow> outcome \<times> world" where
  "later_findPremium req s =
     (let (offers, s1) = offer_findPremium (dict_get (params req) ''city'') (dict_get (query req) ''limit'') s;
          offersResponse = fillDTO OffersResponse offers
      in send OK offersResponse s1)"

definition later_findFavorite :: "request \<Rightarrow> world \<Rightarrow> outcome \<times> world" where
  "later_findFavorite req s =
     (let (offers, s1) = offer_findFavorite [] s;
          offersResponse = fillDTO OffersResponse offers
      in send OK offersResponse s1)"

definition uploadImage :: "request \<Rightarrow> world \<Rightarrow> outcome \<times> world" where
  "uploadImage req s =
     (let offerId = dict_get (params req) ''offerId'';
          updateDto = JObj [(''previewImage'', (case file req of Some filename \<Rightarrow> JStr filename | None \<Rightarrow> JUndefined))];
          (u, s1) = offer_updateById offerId updateDto s
      in created (fillDTO UploadImageResponse (JObj [(''updateDto'', updateDto)])) s1)"

text \<open>\<open>fileArray.map\<close> of a request to which no upload middleware attached files is a TypeError.\<close>

definition uploadImages :: "request \<Rightarrow> world \<Rightarrow> outcome \<times> world" where
  "uploadImages req s =
     (let offerId = dict_get (params req) ''offerId''
      in case files req of
           None \<Rightarrow> (Inl (TypeError ''Cannot read properties of undefined (reading map)''), s)
         | Some fileArray \<Rightarrow>
             (let fileNames = map JStr fileArray;
                  updateDto = JObj [(''offerImages'', JArr fileNames)];
                  (u, s1) = offer_updateById offerId updateDto s
              in created (fillDTO UploadImagesResponse updateDto) s1))"

text \<open>
  The constructor's routes, in its order. Its parameters are what it reads from
  outside the file: the upload directory of the configuration and the two DTO classes.
\<close>

definition OfferController_later :: "string \<Rightarrow> (json \<Rightarrow> string list) \<Rightarrow> (json \<Rightarrow> string list) \<Rightarrow> route list" where
  "OfferController_later UPLOAD_DIRECTORY CreateOfferDto UpdateOfferDto =
     [\<lparr> path = ''/'', method = Get, handler = later_index, middlewares = [] \<rparr>,
      \<lparr> path = ''/'', method = Post, handler = later_create,
        middlewares = [PrivateRouteMiddleware, ValidateDtoMiddleware CreateOfferDto] \<rparr>,
      \<lparr> path = ''/favorite'', method = Get, handler = later_findFavorite, middlewares = [] \<rparr>,
      \<lparr> path = ''/:offerId'', method = Get, handler = later_show,
        middlewares = [ValidateObjectIdMiddleware ''offerId'',
                       DocumentExistsMiddleware offer_exists ''Offer'' ''offerId''] \<rparr>,
      \<lparr> path = ''/:offerId'', method = Delete, handler = later_delete,
        middlewares = [PrivateRouteMiddleware, ValidateObjectIdMiddleware ''offerId'',
                       DocumentExistsMiddleware offer_exists ''Offer'' ''offerId''] \<rparr>,
      \<lparr> path = ''/:offerId'', method = Patch, handler = later_update,
        middlewares = [PrivateRouteMiddleware, ValidateObjectIdMiddleware ''offerId'',
                       ValidateDtoMiddleware UpdateOfferDto,
                       DocumentExistsMiddleware offer_exists ''Offer'' ''offerId''] \<rparr>,
      \<lparr> path = ''/:offerId/comments'', method = Get, handler = later_getComments,
        middlewares = [ValidateObjectIdMiddleware ''offerId'',
                       DocumentExistsMiddleware offer_exists ''Offer'' ''offerId''] \<rparr>,
      \<lparr> path = ''/:offerId/previewImage'', method = Post, handler = uploadImage,
        middlewares = [PrivateRouteMiddleware, ValidateObjectIdMiddleware ''offerId'',
                       UploadFileMiddleware UPLOAD_DIRECTORY ''image''] \<rparr>,
      \<lparr> path = ''/:offerId/offerImages'', method = Post, handler = uploadImages,
        middlewares = [PrivateRouteMiddleware, ValidateObjectIdMiddleware ''offerId'',
                       UploadFilesMiddleware UPLOAD_DIRECTORY ''image''] \<rparr>,
      \<lparr> path = ''/premium/:city'', method = Get, handler = later_findPremium, middlewares = [] \<rparr>]"

section \<open>Reading outcomes, and a small world to run requests on\<close>

text \<open>The status code of the response a handler sent; \<open>None\<close> when it threw instead.\<close>

definition status_of :: "outcome \<Rightarrow> nat option" where
  "status_of out = (case out of Inr (st, data) \<Rightarrow> Some st | Inl e \<Rightarrow> None)"

text \<open>
  One offer, marked as favorite, with one comment; a second comment belongs to another
  offer. The next identifier the database gives is number 1.
\<close>

definition example_world :: world where
  "example_world =
     \<lparr> offers = [(''000000000000000000000000'', [(''title'', JStr ''Flat''), (''isFavorite'', JBool True)])],
       comments = [[(''offerId'', JStr ''000000000000000000000000''), (''text'', JStr ''nice'')],
                   [(''offerId'', JStr ''00000000000000000000000a''), (''text'', JStr ''other'')]],
       next_id = 1, calls = [] \<rparr>"

text \<open>An authenticated request (\<open>Some\<close> user id) or an anonymous one, without body or files.\<close>

definition example_request :: "HttpMethod \<Rightarrow> string \<Rightarrow> string option \<Rightarrow> request" where
  "example_request m u who =
     \<lparr> req_method = m, req_url = u, params = [], query = [], body = JUndefined, user = who,
       multipart = [], file = None, files = None \<rparr>"

section \<open>Theorems\<close>

subsection \<open>UserEntity\<close>

lemma UserEntity_run_snoc:
  "UserEntity_run sha data (ops @ [(pw, salt)]) = setPassword sha (UserEntity_run sha data ops) pw salt"
  by (simp add: UserEntity_run_def)

lemma UserEntity_run_public:
  "name (UserEntity_run sha data ops) = name data \<and>
   email (UserEntity_run sha data ops) = email data \<and>
   avatarPath (UserEntity_run sha data ops) = avatarPath data \<and>
   userType (UserEntity_run sha data ops) = userType data"
proof (induction ops rule: rev_induct)
  case Nil
  show ?case by (simp add: UserEntity_run_def UserEntity_new_def)
next
  case (snoc x xs)
  obtain pw salt where x: "x = (pw, salt)" by (cases x)
  from snoc show ?case
    unfolding x UserEntity_run_snoc by (simp add: setPassword_def)
qed

lemma UserEntity_run_password:
  "getPassword (UserEntity_run sha data ops) =
     (case rev ops of [] \<Rightarrow> None | (pw, salt) # _ \<Rightarrow> Some (sha pw salt))"
proof (cases ops rule: rev_cases)
  case Nil
  then show ?thesis by (simp add: UserEntity_run_def UserEntity_new_def getPassword_def)
next
  case (snoc xs x)
  obtain pw salt where x: "x = (pw, salt)" by (cases x)
  show ?thesis
    unfolding snoc x UserEntity_run_snoc by (simp add: setPassword_def getPassword_def)
qed

text \<open>
  C7. Whatever data a UserEntity is built from and whatever (password, salt) pairs
  \<open>setPassword\<close> is then called with, the password field is either still unassigned or
  holds \<open>createSHA256\<close> of the last pair, and the four public fields still hold the
  constructor's data: no operation of the class stores its plaintext argument.
\<close>

theorem C7_password_only_salted_hash:
  "getPassword (UserEntity_run sha data ops) =
     (case rev ops of [] \<Rightarrow> None | (pw, salt) # _ \<Rightarrow> Some (sha pw salt)) \<and>
   User.truncate (UserEntity_run sha data ops) = User.truncate data"
proof -
  have "User.truncate (UserEntity_run sha data ops) = User.truncate data"
    using UserEntity_run_public [of sha data ops] by (simp add: User.truncate_def)
  then show ?thesis
    by (simp add: UserEntity_run_password)
qed

theorem C7_password_only_salted_hash_witness:
  "getPassword (UserEntity_run (\<lambda>pw salt. ''h('' @ pw @ '','' @ salt @ '')'')
      \<lparr> name = ''Ann'', email = ''a@b.c'', avatarPath = ''a.png'', userType = True \<rparr>
      [(''old'', ''s1''), (''secret'', ''s2'')]) = Some ''h(secret,s2)''"
  using C7_password_only_salted_hash
    [where sha = "\<lambda>pw salt. ''h('' @ pw @ '','' @ salt @ '')''"
       and data = "\<lparr> name = ''Ann'', email = ''a@b.c'', avatarPath = ''a.png'', userType = True \<rparr>"
       and ops = "[(''old'', ''s1''), (''secret'', ''s2'')]"]
  by simp

subsection \<open>fetchOffer\<close>

text \<open>
  C10. When \<open>api.get\<close> fails with a response of status 404, fetchOffer pushes the
  NotFound route and rejects with the same error; when it fails in any other way
  (another status, or no response at all) it rejects with the same error and leaves
  the history alone; when it succeeds it resolves with the adapted offer and leaves
  the history alone.
\<close>

theorem C10_fetchOffer:
  "(api_get (ApiRoute_Offers @ ''/'' @ ident) = Inl error \<and> response_status error = Some 404 \<longrightarrow>
      fetchOffer adapt api_get ident history = (Rejected error, history @ [AppRoute_NotFound])) \<and>
   (api_get (ApiRoute_Offers @ ''/'' @ ident) = Inl error \<and> response_status error \<noteq> Some 404 \<longrightarrow>
      fetchOffer adapt api_get ident history = (Rejected error, history)) \<and>
   (api_get (ApiRoute_Offers @ ''/'' @ ident) = Inr data \<longrightarrow>
      fetchOffer adapt api_get ident history = (Fulfilled (adapt data), history))"
  by (simp add: fetchOffer_def HttpCode_NotFound_def)

theorem C10_fetchOffer_witness:
  "fetchOffer (\<lambda>d. d) (\<lambda>u. Inl \<lparr> response_status = Some 404, error_message = ''Not Found'' \<rparr>) ''7'' []
     = (Rejected \<lparr> response_status = Some 404, error_message = ''Not Found'' \<rparr>, [AppRoute_NotFound]) \<and>
   fetchOffer (\<lambda>d. d) (\<lambda>u. Inl \<lparr> response_status = Some 500, error_message = ''Boom'' \<rparr>) ''7'' []
     = (Rejected \<lparr> response_status = Some 500, error_message = ''Boom'' \<rparr>, []) \<and>
   fetchOffer (\<lambda>d. d) (\<lambda>u. if u = ''/offers/7'' then Inr ''offer 7'' else Inl \<lparr> response_status = None, error_message = ''?'' \<rparr>) ''7'' []
     = (Fulfilled ''offer 7'', [])"
proof -
  let ?e404 = "\<lparr> response_status = Some 404, error_message = ''Not Found'' \<rparr>"
  let ?e500 = "\<lparr> response_status = Some 500, error_message = ''Boom'' \<rparr>"
  let ?get = "\<lambda>u. if u = ''/offers/7'' then Inr ''offer 7'' else Inl \<lparr> response_status = None, error_message = ''?'' \<rparr>"
  have a: "fetchOffer (\<lambda>d. d) (\<lambda>u. Inl ?e404) ''7'' [] = (Rejected ?e404, [AppRoute_NotFound])"
    using C10_fetchOffer [where api_get = "\<lambda>u. Inl ?e404" and ident = "''7''" and error = ?e404
        and adapt = "\<lambda>d. d" and history = "[]"] by simp
  have b: "fetchOffer (\<lambda>d. d) (\<lambda>u. Inl ?e500) ''7'' [] = (Rejected ?e500, [])"
    using C10_fetchOffer [where api_get = "\<lambda>u. Inl ?e500" and ident = "''7''" and error = ?e500
        and adapt = "\<lambda>d. d" and history = "[]"] by simp
  have c: "fetchOffer (\<lambda>d. d) ?get ''7'' [] = (Fulfilled ''offer 7'', [])"
    using C10_fetchOffer [where api_get = ?get and ident = "''7''" and data = "''offer 7''"
        and adapt = "\<lambda>d. d" and history = "[]"]
    by (simp add: ApiRoute_Offers_def)
  from a b c show ?thesis by simp
qed

subsection \<open>Routing\<close>

lemma segments_root: "segments ''/'' = []"
  by (simp add: segments_def)

lemma segments_offerId: "segments ''/:offerId'' = ['':offerId'']"
  by (simp add: segments_def)

lemma segments_favorite: "segments ''/favorite'' = [''favorite'']"
  by (simp add: segments_def)

lemma segments_comments: "segments ''/:offerId/comments'' = ['':offerId'', ''comments'']"
  by (simp add: segments_def)

lemma segments_previewImage: "segments ''/:offerId/previewImage'' = ['':offerId'', ''previewImage'']"
  by (simp add: segments_def)

lemma segments_offerImages: "segments ''/:offerId/offerImages'' = ['':offerId'', ''offerImages'']"
  by (simp add: segments_def)

lemma segments_premium: "segments ''/premium/:city'' = [''premium'', '':city'']"
  by (simp add: segments_def)

lemmas segments_simps = segments_root segments_offerId segments_favorite segments_comments
  segments_previewImage segments_offerImages segments_premium

lemma dispatch_later_post_root:
  "req_method req = Post \<Longrightarrow> segments (req_url req) = [] \<Longrightarrow>
   dispatch (OfferController_later dir C U) req =
     Some (\<lparr> path = ''/'', method = Post, handler = later_create,
             middlewares = [PrivateRouteMiddleware, ValidateDtoMiddleware C] \<rparr>,
           req\<lparr> params := [] \<rparr>)"
  by (simp add: OfferController_later_def match_route_def segments_simps)

lemma dispatch_later_get_id:
  "req_method req = Get \<Longrightarrow> segments (req_url req) = [i] \<Longrightarrow> i \<noteq> ''favorite'' \<Longrightarrow>
   dispatch (OfferController_later dir C U) req =
     Some (\<lparr> path = ''/:offerId'', method = Get, handler = later_show,
             middlewares = [ValidateObjectIdMiddleware ''offerId'',
                            DocumentExistsMiddleware offer_exists ''Offer'' ''offerId''] \<rparr>,
           req\<lparr> params := [(''offerId'', i)] \<rparr>)"
  by (simp add: OfferController_later_def match_route_def segments_simps)

lemma dispatch_later_get_favorite:
  "req_method req = Get \<Longrightarrow> segments (req_url req) = [''favorite''] \<Longrightarrow>
   dispatch (OfferController_later dir C U) req =
     Some (\<lparr> path = ''/favorite'', method = Get, handler = later_findFavorite, middlewares = [] \<rparr>,
           req\<lparr> params := [] \<rparr>)"
  by (simp add: OfferController_later_def match_route_def segments_simps)

lemma dispatch_later_delete_id:
  "req_method req = Delete \<Longrightarrow> segments (req_url req) = [i] \<Longrightarrow>
   dispatch (OfferController_later dir C U) req =
     Some (\<lparr> path = ''/:offerId'', method = Delete, handler = later_delete,
             middlewares = [PrivateRouteMiddleware, ValidateObjectIdMiddleware ''offerId'',
                            DocumentExistsMiddleware offer_exists ''Offer'' ''offerId''] \<rparr>,
           req\<lparr> params := [(''offerId'', i)] \<rparr>)"
  by (simp add: OfferController_later_def match_route_def segments_simps)

lemma dispatch_later_post_previewImage:
  "req_method req = Post \<Longrightarrow> segments (req_url req) = [i, ''previewImage''] \<Longrightarrow>
   dispatch (OfferController_later dir C U) req =
     Some (\<lparr> path = ''/:offerId/previewImage'', method = Post, handler = uploadImage,
             middlewares = [PrivateRouteMiddleware, ValidateObjectIdMiddleware ''offerId'',
                            UploadFileMiddleware dir ''image''] \<rparr>,
           req\<lparr> params := [(''offerId'', i)] \<rparr>)"
  by (simp add: OfferController_later_def match_route_def segments_simps)

lemma dispatch_later_post_offerImages:
  "req_method req = Post \<Longrightarrow> segments (req_url req) = [i, ''offerImages''] \<Longrightarrow>
   dispatch (OfferController_later dir C U) req =
     Some (\<lparr> path = ''/:offerId/offerImages'', method = Post, handler = uploadImages,
             middlewares = [PrivateRouteMiddleware, ValidateObjectIdMiddleware ''offerId'',
                            UploadFilesMiddleware dir ''image''] \<rparr>,
           req\<lparr> params := [(''offerId'', i)] \<rparr>)"
  by (simp add: OfferController_later_def match_route_def segments_simps)

lemma dispatch_later_patch_id:
  "req_method req = Patch \<Longrightarrow> segments (req_url req) = [i] \<Longrightarrow>
   dispatch (OfferController_later dir C U) req =
     Some (\<lparr> path = ''/:offerId'', method = Patch, handler = later_update,
             middlewares = [PrivateRouteMiddleware, ValidateObjectIdMiddleware ''offerId'',
                            ValidateDtoMiddleware U,
                            DocumentExistsMiddleware offer_exists ''Offer'' ''offerId''] \<rparr>,
           req\<lparr> params := [(''offerId'', i)] \<rparr>)"
  by (simp add: OfferController_later_def match_route_def segments_simps)

lemma dispatch_later_get_comments:
  "req_method req = Get \<Longrightarrow> segments (req_url req) = [i, ''comments''] \<Longrightarrow>
   dispatch (OfferController_later dir C U) req =
     Some (\<lparr> path = ''/:offerId/comments'', method = Get, handler = later_getComments,
             middlewares = [ValidateObjectIdMiddleware ''offerId'',
                            DocumentExistsMiddleware offer_exists ''Offer'' ''offerId''] \<rparr>,
           req\<lparr> params := [(''offerId'', i)] \<rparr>)"
  by (simp add: OfferController_later_def match_route_def segments_simps)

lemma dispatch_early_get_one:
  "req_method req = Get \<Longrightarrow> segments (req_url req) = [i] \<Longrightarrow>
   dispatch OfferController_early req =
     Some (\<lparr> path = ''/:offerId'', method = Get, handler = early_show, middlewares = [] \<rparr>,
           req\<lparr> params := [(''offerId'', i)] \<rparr>)"
  by (simp add: OfferController_early_def match_route_def segments_simps)

lemma dispatch_early_delete_id:
  "req_method req = Delete \<Longrightarrow> segments (req_url req) = [i] \<Longrightarrow>
   dispatch OfferController_early req =
     Some (\<lparr> path = ''/:offerId'', method = Delete, handler = early_delete, middlewares = [] \<rparr>,
           req\<lparr> params := [(''offerId'', i)] \<rparr>)"
  by (simp add: OfferController_early_def match_route_def segments_simps)

subsection \<open>Object ids\<close>

lemma is_hex_digit_hex_digit: "is_hex_digit (hex_digit d)"
proof -
  have all: "list_all (\<lambda>k. is_hex_digit (''0123456789abcdef'' ! k)) [0..<16]"
    by code_simp
  have "d mod 16 \<in> set [0..<16]" by simp
  with all show ?thesis
    unfolding hex_digit_def list_all_iff by blast
qed

lemma length_hex_string: "length (hex_string k n) = k"
  by (induction k arbitrary: n) simp_all

lemma hex_string_hex: "list_all is_hex_digit (hex_string k n)"
  by (induction k arbitrary: n) (simp_all add: is_hex_digit_hex_digit)

lemma length_object_id_of: "length (object_id_of n) = 24"
  by (simp add: object_id_of_def length_hex_string)

lemma isValidObjectId_object_id_of: "isValidObjectId (object_id_of n)"
  by (simp add: isValidObjectId_def object_id_of_def length_hex_string hex_string_hex)

lemma object_id_of_1: "object_id_of 1 = ''000000000000000000000001''"
  by code_simp

subsection \<open>The services\<close>

lemma calls_called: "calls (called c s) = calls s @ [c]"
  by (simp add: called_def)

lemma lookup_offer_called: "lookup_offer i (called c s) = lookup_offer i s"
  by (cases i) (simp_all add: lookup_offer_def called_def)

lemma map_of_filter_fst_neq: "map_of (filter (\<lambda>x. fst x \<noteq> i) xs) i = None"
  by (induction xs) auto

lemma filter_filter_not: "filter P (filter (\<lambda>x. \<not> P x) xs) = []"
  by (induction xs) auto

lemma calls_offer_deleteById: "calls (snd (offer_deleteById i s)) = calls s @ [OfferDeleteById i]"
  by (simp add: offer_deleteById_def called_def split: option.splits)

lemma calls_comment_deleteByOfferId:
  "calls (snd (comment_deleteByOfferId i s)) = calls s @ [CommentDeleteByOfferId i]"
  by (simp add: comment_deleteByOfferId_def called_def)

lemma find_after_comment_delete:
  "fst (comment_findByOfferId i (snd (comment_deleteByOfferId i s))) = JArr []"
  by (simp add: comment_findByOfferId_def comment_deleteByOfferId_def called_def filter_filter_not)

lemma lookup_after_offer_delete: "lookup_offer i (snd (offer_deleteById i s)) = None"
  by (cases i)
     (auto simp: lookup_offer_def offer_deleteById_def called_def map_of_filter_fst_neq
           split: option.splits)

lemma lookup_offer_comment_delete:
  "lookup_offer i (snd (comment_deleteByOfferId j s)) = lookup_offer i s"
  by (cases i) (simp_all add: lookup_offer_def comment_deleteByOfferId_def called_def)

subsection \<open>Response mapping of users\<close>

text \<open>
  C6. For every user entity, whatever its identifier, fields and password hash, the
  object that the User response mapping produces has exactly the properties id, name,
  email, avatarPath and userType; it has no property \<open>password\<close>, and the same holds
  for each element when an array of users is mapped.
\<close>

theorem C6_UserResponse_without_password:
  "keys (fillDTO UserResponse (UserEntity_plain ident ut u)) =
     [''id'', ''name'', ''email'', ''avatarPath'', ''userType''] \<and>
   ''password'' \<notin> set (keys (fillDTO UserResponse (UserEntity_plain ident ut u))) \<and>
   get_field (fillDTO UserResponse (UserEntity_plain ident ut u)) ''password'' = JUndefined \<and>
   fillDTO UserResponse (JArr (map (UserEntity_plain ident ut) us)) =
     JArr (map (\<lambda>u. fillDTO UserResponse (UserEntity_plain ident ut u)) us)"
  by (simp add: fillDTO_def fillOne_def UserEntity_plain_def UserResponse_def keys_def
        spread_def get_field_def)

subsection \<open>The private route POST /offers\<close>

text \<open>
  C3. In the later revision, every POST request to the root of the controller that
  carries no authenticated user is ended by the private-route middleware with the
  error 401, whatever its body; the world is returned as it was, so no service was
  called (the log of calls is unchanged) and no offer was stored.
\<close>

theorem C3_unauthenticated_post_rejected:
  "req_method req = Post \<Longrightarrow> segments (req_url req) = [] \<Longrightarrow> user req = None \<Longrightarrow>
   handle (OfferController_later dir CreateOfferDto UpdateOfferDto) req s =
     (Inl (HttpError 401 ''Unauthorized'' ''PrivateRouteMiddleware''), s)"
  by (simp add: handle_def dispatch_later_post_root UNAUTHORIZED_def)

theorem C3_unauthenticated_post_rejected_witness:
  "handle (OfferController_later ''upload'' (\<lambda>b. []) (\<lambda>b. []))
     ((example_request Post ''/'' None)\<lparr> body := JObj [(''title'', JStr ''Loft'')] \<rparr>) example_world =
     (Inl (HttpError 401 ''Unauthorized'' ''PrivateRouteMiddleware''), example_world)"
proof -
  let ?req = "(example_request Post ''/'' None)\<lparr> body := JObj [(''title'', JStr ''Loft'')] \<rparr>"
  have m: "req_method ?req = Post" by (simp add: example_request_def)
  have u: "segments (req_url ?req) = []" by (simp add: example_request_def segments_def)
  have a: "user ?req = None" by (simp add: example_request_def)
  show ?thesis
    by (rule C3_unauthenticated_post_rejected [OF m u a])
qed

subsection \<open>Deleting an offer\<close>

lemma later_delete_eq:
  "later_delete req s =
     (Inr (204, fst (offer_deleteById (dict_get (params req) ''offerId'') s)),
      snd (comment_deleteByOfferId (dict_get (params req) ''offerId'')
             (snd (offer_deleteById (dict_get (params req) ''offerId'') s))))"
  by (simp add: later_delete_def Let_def split_beta noContent_def send_def NO_CONTENT_def)

lemma early_delete_present:
  "lookup_offer (dict_get (params req) ''offerId'') s \<noteq> None \<Longrightarrow>
   early_delete req s = later_delete req s"
  by (auto simp: early_delete_def later_delete_def Let_def split_beta offer_deleteById_def
        entity_def falsy_def)

lemma early_delete_absent:
  "lookup_offer (dict_get (params req) ''offerId'') s = None \<Longrightarrow>
   early_delete req s =
     (Inl (HttpError 404 (''Offer with id '' @ to_text (dict_get (params req) ''offerId'') @ '' not found.'')
             ''OfferContorller''),
      called (OfferDeleteById (dict_get (params req) ''offerId'')) s)"
  by (simp add: early_delete_def Let_def offer_deleteById_def falsy_def NOT_FOUND_def)

lemma later_delete_effect:
  "status_of (fst (later_delete req s)) = Some 204 \<and>
   calls (snd (later_delete req s)) =
     calls s @ [OfferDeleteById (dict_get (params req) ''offerId''),
                CommentDeleteByOfferId (dict_get (params req) ''offerId'')] \<and>
   fst (comment_findByOfferId (dict_get (params req) ''offerId'') (snd (later_delete req s))) = JArr [] \<and>
   lookup_offer (dict_get (params req) ''offerId'') (snd (later_delete req s)) = None"
  unfolding later_delete_eq
  by (simp add: status_of_def calls_comment_deleteByOfferId calls_offer_deleteById
        find_after_comment_delete lookup_offer_comment_delete lookup_after_offer_delete)

lemma handle_later_delete:
  "req_method req = Delete \<Longrightarrow> segments (req_url req) = [i] \<Longrightarrow> user req \<noteq> None \<Longrightarrow>
   isValidObjectId i \<Longrightarrow> lookup_offer (JStr i) s \<noteq> None \<Longrightarrow>
   handle (OfferController_later dir C U) req s =
     later_delete (req\<lparr> params := [(''offerId'', i)] \<rparr>) (called (OfferExists (JStr i)) s)"
  by (auto simp: handle_def dispatch_later_delete_id dict_get_def offer_exists_def)

lemma handle_early_delete:
  "req_method req = Delete \<Longrightarrow> segments (req_url req) = [i] \<Longrightarrow>
   handle OfferController_early req s = early_delete (req\<lparr> params := [(''offerId'', i)] \<rparr>) s"
  by (simp add: handle_def dispatch_early_delete_id)

text \<open>
  C1. A DELETE request for the id \<open>i\<close> of a stored offer succeeds with 204 in both
  revisions (in the later one when the request is authenticated and the id is well
  formed, which its middlewares ask for). The services it invokes are, in this order,
  the offer service's deleteById for \<open>i\<close> and then the comment service's
  deleteByOfferId for the same \<open>i\<close> (after the existence check of the later revision).
  Afterwards the offer is gone and findByOfferId for \<open>i\<close> returns the empty array.
\<close>

theorem C1_delete_cascades_to_comments:
  assumes "req_method req = Delete" and "segments (req_url req) = [i]"
    and "lookup_offer (JStr i) s \<noteq> None"
  shows "(user req \<noteq> None \<and> isValidObjectId i \<longrightarrow>
           (let r = handle (OfferController_later dir CreateOfferDto UpdateOfferDto) req s in
              status_of (fst r) = Some 204 \<and>
              calls (snd r) = calls s @ [OfferExists (JStr i), OfferDeleteById (JStr i),
                                         CommentDeleteByOfferId (JStr i)] \<and>
              fst (comment_findByOfferId (JStr i) (snd r)) = JArr [] \<and>
              lookup_offer (JStr i) (snd r) = None)) \<and>
         (let r = handle OfferController_early req s in
              status_of (fst r) = Some 204 \<and>
              calls (snd r) = calls s @ [OfferDeleteById (JStr i), CommentDeleteByOfferId (JStr i)] \<and>
              fst (comment_findByOfferId (JStr i) (snd r)) = JArr [] \<and>
              lookup_offer (JStr i) (snd r) = None)"
proof -
  let ?req = "req\<lparr> params := [(''offerId'', i)] \<rparr>"
  have p: "dict_get (params ?req) ''offerId'' = JStr i"
    by (simp add: dict_get_def)
  have e: "lookup_offer (dict_get (params ?req) ''offerId'') s \<noteq> None"
    using assms(3) by (simp add: dict_get_def)
  have early: "handle OfferController_early req s = later_delete ?req s"
    using handle_early_delete [OF assms(1,2)] early_delete_present [OF e] by simp
  have effect: "status_of (fst (later_delete ?req t)) = Some 204 \<and>
      calls (snd (later_delete ?req t)) = calls t @ [OfferDeleteById (JStr i), CommentDeleteByOfferId (JStr i)] \<and>
      fst (comment_findByOfferId (JStr i) (snd (later_delete ?req t))) = JArr [] \<and>
      lookup_offer (JStr i) (snd (later_delete ?req t)) = None" for t
    using later_delete_effect [of ?req t] unfolding p .
  show ?thesis
  proof (intro conjI impI)
    assume a: "user req \<noteq> None \<and> isValidObjectId i"
    have "handle (OfferController_later dir CreateOfferDto UpdateOfferDto) req s =
            later_delete ?req (called (OfferExists (JStr i)) s)"
      using handle_later_delete [OF assms(1,2) _ _ assms(3)] a by simp
    then show "let r = handle (OfferController_later dir CreateOfferDto UpdateOfferDto) req s in
              status_of (fst r) = Some 204 \<and>
              calls (snd r) = calls s @ [OfferExists (JStr i), OfferDeleteById (JStr i),
                                         CommentDeleteByOfferId (JStr i)] \<and>
              fst (comment_findByOfferId (JStr i) (snd r)) = JArr [] \<and>
              lookup_offer (JStr i) (snd r) = None"
      using effect [of "called (OfferExists (JStr i)) s"] by (simp add: Let_def calls_called)
  next
    show "let r = handle OfferController_early req s in
              status_of (fst r) = Some 204 \<and>
              calls (snd r) = calls s @ [OfferDeleteById (JStr i), CommentDeleteByOfferId (JStr i)] \<and>
              fst (comment_findByOfferId (JStr i) (snd r)) = JArr [] \<and>
              lookup_offer (JStr i) (snd r) = None"
      using effect [of s] early by (simp add: Let_def)
  qed
qed

theorem C1_delete_cascades_to_comments_witness:
  "calls (snd (handle (OfferController_later ''upload'' (\<lambda>b. []) (\<lambda>b. []))
            (example_request Delete ''/000000000000000000000000'' (Some ''ann'')) example_world)) =
     [OfferExists (JStr ''000000000000000000000000''), OfferDeleteById (JStr ''000000000000000000000000''),
      CommentDeleteByOfferId (JStr ''000000000000000000000000'')] \<and>
   fst (comment_findByOfferId (JStr ''000000000000000000000000'')
          (snd (handle (OfferController_later ''upload'' (\<lambda>b. []) (\<lambda>b. []))
            (example_request Delete ''/000000000000000000000000'' (Some ''ann'')) example_world))) = JArr [] \<and>
   fst (comment_findByOfferId (JStr ''000000000000000000000000'')
          (snd (handle OfferController_early
            (example_request Delete ''/000000000000000000000000'' None) example_world))) = JArr []"
proof -
  let ?i = "''000000000000000000000000''"
  have m: "req_method (example_request Delete ''/000000000000000000000000'' who) = Delete" for who
    by (simp add: example_request_def)
  have u: "segments (req_url (example_request Delete ''/000000000000000000000000'' who)) = [?i]" for who
    by (simp add: example_request_def segments_def)
  have e: "lookup_offer (JStr ?i) example_world \<noteq> None"
    by (simp add: lookup_offer_def example_world_def)
  have a: "user (example_request Delete ''/000000000000000000000000'' (Some ''ann'')) \<noteq> None \<and> isValidObjectId ?i"
    by (simp add: example_request_def isValidObjectId_def is_hex_digit_def)
  have c: "calls example_world = []"
    by (simp add: example_world_def)
  show ?thesis
    using C1_delete_cascades_to_comments [OF m u e, of "Some ''ann''" "''upload''" "\<lambda>b. []" "\<lambda>b. []"]
      C1_delete_cascades_to_comments [OF m u e, of None "''upload''" "\<lambda>b. []" "\<lambda>b. []"] a c
    by (simp add: Let_def)
qed

subsection \<open>Uploading the preview image\<close>

lemma calls_offer_updateById: "calls (snd (offer_updateById i p s)) = calls s @ [OfferUpdateById i p]"
  by (simp add: offer_updateById_def called_def Let_def split: option.splits prod.splits)

lemma offers_offer_updateById_absent:
  "lookup_offer i s = None \<Longrightarrow> offers (snd (offer_updateById i p s)) = offers s"
  by (simp add: offer_updateById_def called_def)

lemma uploadImage_eq:
  "uploadImage req s =
     (Inr (201, JObj []),
      snd (offer_updateById (dict_get (params req) ''offerId'')
             (JObj [(''previewImage'', (case file req of Some filename \<Rightarrow> JStr filename | None \<Rightarrow> JUndefined))]) s))"
  by (simp add: uploadImage_def Let_def split_beta created_def send_def CREATED_def fillDTO_def
        fillOne_def UploadImageResponse_def)

lemma handle_later_previewImage:
  "req_method req = Post \<Longrightarrow> segments (req_url req) = [i, ''previewImage''] \<Longrightarrow> user req \<noteq> None \<Longrightarrow>
   isValidObjectId i \<Longrightarrow>
   handle (OfferController_later dir C U) req s =
     uploadImage (req\<lparr> params := [(''offerId'', i)], file := map_of (multipart req) ''image'' \<rparr>) s"
  by (auto simp: handle_def dispatch_later_post_previewImage)

text \<open>
  C9. The uploadImage handler answers 201 for every request and every world, after
  exactly one service call: updateById with the offer id of the route and a patch
  whose previewImage is the name of the attached file, or \<open>undefined\<close> when no file was
  attached. Every authenticated POST to \<open>/:offerId/previewImage\<close> with a well-formed id
  reaches the handler (no existence check is among the middlewares of the route, and
  none is logged), so the answer is 201 also when no offer has that id, and then no
  offer is changed.
\<close>

theorem C9_uploadImage_always_created:
  "status_of (fst (uploadImage req s)) = Some 201 \<and>
   calls (snd (uploadImage req s)) =
     calls s @ [OfferUpdateById (dict_get (params req) ''offerId'')
                  (JObj [(''previewImage'', (case file req of Some filename \<Rightarrow> JStr filename | None \<Rightarrow> JUndefined))])] \<and>
   (req_method req = Post \<and> segments (req_url req) = [i, ''previewImage''] \<and> user req \<noteq> None \<and>
    isValidObjectId i \<longrightarrow>
      (let r = handle (OfferController_later dir CreateOfferDto UpdateOfferDto) req s in
         status_of (fst r) = Some 201 \<and>
         calls (snd r) =
           calls s @ [OfferUpdateById (JStr i)
              (JObj [(''previewImage'', (case map_of (multipart req) ''image'' of
                                           Some filename \<Rightarrow> JStr filename | None \<Rightarrow> JUndefined))])] \<and>
         (lookup_offer (JStr i) s = None \<longrightarrow> offers (snd r) = offers s)))"
proof (intro conjI impI)
  show "status_of (fst (uploadImage req s)) = Some 201"
    by (simp add: uploadImage_eq status_of_def)
  show "calls (snd (uploadImage req s)) =
     calls s @ [OfferUpdateById (dict_get (params req) ''offerId'')
                  (JObj [(''previewImage'', (case file req of Some filename \<Rightarrow> JStr filename | None \<Rightarrow> JUndefined))])]"
    by (simp add: uploadImage_eq calls_offer_updateById)
next
  assume a: "req_method req = Post \<and> segments (req_url req) = [i, ''previewImage''] \<and> user req \<noteq> None \<and>
    isValidObjectId i"
  let ?req = "req\<lparr> params := [(''offerId'', i)], file := map_of (multipart req) ''image'' \<rparr>"
  have h: "handle (OfferController_later dir CreateOfferDto UpdateOfferDto) req s = uploadImage ?req s"
    using a handle_later_previewImage by blast
  have p: "dict_get (params ?req) ''offerId'' = JStr i"
    by (simp add: dict_get_def)
  show "let r = handle (OfferController_later dir CreateOfferDto UpdateOfferDto) req s in
         status_of (fst r) = Some 201 \<and>
         calls (snd r) =
           calls s @ [OfferUpdateById (JStr i)
              (JObj [(''previewImage'', (case map_of (multipart req) ''image'' of
                                           Some filename \<Rightarrow> JStr filename | None \<Rightarrow> JUndefined))])] \<and>
         (lookup_offer (JStr i) s = None \<longrightarrow> offers (snd r) = offers s)"
    unfolding h Let_def uploadImage_eq
    by (simp add: status_of_def calls_offer_updateById offers_offer_updateById_absent dict_get_def)
qed

theorem C9_uploadImage_always_created_witness:
  "status_of (fst (handle (OfferController_later ''upload'' (\<lambda>b. []) (\<lambda>b. []))
       (example_request Post ''/00000000000000000000000b/previewImage'' (Some ''ann'')) example_world)) = Some 201 \<and>
   lookup_offer (JStr ''00000000000000000000000b'') example_world = None"
proof -
  let ?req = "example_request Post ''/00000000000000000000000b/previewImage'' (Some ''ann'')"
  have a: "req_method ?req = Post \<and> segments (req_url ?req) = [''00000000000000000000000b'', ''previewImage''] \<and>
     user ?req \<noteq> None \<and> isValidObjectId ''00000000000000000000000b''"
    by (simp add: example_request_def segments_def isValidObjectId_def is_hex_digit_def)
  have e: "lookup_offer (JStr ''00000000000000000000000b'') example_world = None"
    by (simp add: lookup_offer_def example_world_def)
  show ?thesis
    using C9_uploadImage_always_created [of ?req example_world "''00000000000000000000000b''" "''upload''" "\<lambda>b. []" "\<lambda>b. []"] a e
    by (simp add: Let_def)
qed

subsection \<open>Creating an offer and showing it\<close>

lemma lookup_offer_JStr:
  "lookup_offer (JStr i) s = (case map_of (offers s) i of Some props \<Rightarrow> Some (i, props) | None \<Rightarrow> None)"
  by (simp add: lookup_offer_def)

lemma get_field_entity_id: "get_field (entity d) ''id'' = JStr (fst d)"
  by (simp add: get_field_def entity_def)

lemma get_field_OfferResponse_id: "get_field (fillDTO OfferResponse (entity d)) ''id'' = JStr (fst d)"
  by (simp add: get_field_def entity_def fillDTO_def fillOne_def OfferResponse_def)

lemma offer_findById_present:
  "lookup_offer i s = Some d \<Longrightarrow> offer_findById i s = (entity d, called (OfferFindById i) s)"
  by (simp add: offer_findById_def)

lemma lookup_after_create:
  assumes "lookup_offer (JStr (object_id_of (next_id s))) s = None"
  shows "lookup_offer (JStr (object_id_of (next_id s))) (snd (offer_create payload s)) =
           Some (object_id_of (next_id s), AList.delete ''id'' (spread payload))"
proof -
  have "map_of (offers s) (object_id_of (next_id s)) = None"
    using assms by (simp add: lookup_offer_JStr split: option.splits)
  then show ?thesis
    by (simp add: lookup_offer_JStr offer_create_def Let_def called_def map_add_def)
qed

lemma later_create_eq:
  assumes "user req = Some uid"
    and "lookup_offer (JStr (object_id_of (next_id s))) s = None"
  shows "later_create req s =
     (let payload = JObj (AList.update ''userId'' (JStr uid) (spread (body req)));
          d = (object_id_of (next_id s), AList.delete ''id'' (spread payload))
      in (Inr (201, fillDTO OfferResponse (entity d)),
          called (OfferFindById (JStr (object_id_of (next_id s)))) (snd (offer_create payload s))))"
proof -
  let ?payload = "JObj (AList.update ''userId'' (JStr uid) (spread (body req)))"
  let ?d = "(object_id_of (next_id s), AList.delete ''id'' (spread ?payload))"
  have c: "fst (offer_create ?payload s) = entity ?d"
    by (simp add: offer_create_def Let_def)
  have f: "offer_findById (JStr (object_id_of (next_id s))) (snd (offer_create ?payload s)) =
             (entity ?d, called (OfferFindById (JStr (object_id_of (next_id s)))) (snd (offer_create ?payload s)))"
    by (rule offer_findById_present [OF lookup_after_create [OF assms(2)]])
  show ?thesis
    using assms(1) c f
    by (simp add: later_create_def Let_def split_beta get_field_entity_id created_def send_def CREATED_def)
qed

lemma handle_later_create:
  "req_method req = Post \<Longrightarrow> segments (req_url req) = [] \<Longrightarrow> user req = Some uid \<Longrightarrow>
   C (body req) = [] \<Longrightarrow>
   handle (OfferController_later dir C U) req s = later_create (req\<lparr> params := [] \<rparr>) s"
  by (simp add: handle_def dispatch_later_post_root)

lemma handle_later_show:
  assumes "req_method req = Get" and "segments (req_url req) = [i]" and "isValidObjectId i"
    and "lookup_offer (JStr i) s = Some d"
  shows "handle (OfferController_later dir C U) req s =
     (Inr (200, fillDTO OfferResponse (entity d)),
      called (OfferFindById (JStr i)) (called (OfferExists (JStr i)) s))"
proof -
  have "length i = 24" using assms(3) by (simp add: isValidObjectId_def)
  then have nf: "i \<noteq> ''favorite''" by auto
  have l: "lookup_offer (JStr i) (called (OfferExists (JStr i)) s) = Some d"
    using assms(4) by (simp add: lookup_offer_called)
  show ?thesis
    using assms(3,4)
    by (simp add: handle_def dispatch_later_get_id [OF assms(1,2) nf] dict_get_def offer_exists_def
          later_show_def offer_findById_present [OF l] ok_def send_def OK_def)
qed

text \<open>
  C4. In the later revision, an authenticated POST to the root of the controller
  whose body passes the validation of CreateOfferDto is answered 201, provided the
  identifier the database gives next is not in use. The body of the answer is the
  OfferResponse mapping of what findById returns for the identifier of the created
  offer; its \<open>id\<close> is that identifier; and every GET request for \<open>/:offerId\<close> with that
  identifier, made afterwards, is answered 200 with the same body.
\<close>

theorem C4_create_then_show:
  assumes "req_method req = Post" and "segments (req_url req) = []" and "user req = Some uid"
    and "CreateOfferDto (body req) = []"
    and "lookup_offer (JStr (object_id_of (next_id s))) s = None"
  shows "let i = object_id_of (next_id s);
             r = handle (OfferController_later dir CreateOfferDto UpdateOfferDto) req s;
             dto = fillDTO OfferResponse (fst (offer_findById (JStr i) (snd r)))
         in fst r = Inr (201, dto) \<and> get_field dto ''id'' = JStr i \<and>
            (\<forall>req'. req_method req' = Get \<and> segments (req_url req') = [i] \<longrightarrow>
               fst (handle (OfferController_later dir CreateOfferDto UpdateOfferDto) req' (snd r)) = Inr (200, dto))"
proof -
  let ?i = "object_id_of (next_id s)"
  let ?payload = "JObj (AList.update ''userId'' (JStr uid) (spread (body req)))"
  let ?d = "(?i, AList.delete ''id'' (spread ?payload))"
  let ?s1 = "called (OfferFindById (JStr ?i)) (snd (offer_create ?payload s))"
  let ?req = "req\<lparr> params := [] \<rparr>"
  have u: "user ?req = Some uid" and b: "body ?req = body req"
    using assms(3) by simp_all
  have h: "handle (OfferController_later dir CreateOfferDto UpdateOfferDto) req s =
             (Inr (201, fillDTO OfferResponse (entity ?d)), ?s1)"
    unfolding handle_later_create [where C = CreateOfferDto, OF assms(1-4)]
      later_create_eq [OF u assms(5)] b Let_def ..
  have l: "lookup_offer (JStr ?i) ?s1 = Some ?d"
    by (simp add: lookup_offer_called lookup_after_create [OF assms(5)])
  have f: "fst (offer_findById (JStr ?i) ?s1) = entity ?d"
    by (simp add: offer_findById_present [OF l])
  have g: "fst (handle (OfferController_later dir CreateOfferDto UpdateOfferDto) req' ?s1) =
             Inr (200, fillDTO OfferResponse (entity ?d))"
    if "req_method req' = Get \<and> segments (req_url req') = [?i]" for req'
    using handle_later_show [OF _ _ isValidObjectId_object_id_of l, of req'] that by simp
  show ?thesis
    unfolding Let_def h snd_conv fst_conv f
    using g by (simp add: get_field_OfferResponse_id)
qed

theorem C4_create_then_show_witness:
  "fst (handle (OfferController_later ''upload'' (\<lambda>b. []) (\<lambda>b. []))
          ((example_request Post ''/'' (Some ''ann''))\<lparr> body := JObj [(''title'', JStr ''Loft'')] \<rparr>)
          example_world) =
     Inr (201, JObj [(''id'', JStr ''000000000000000000000001''), (''title'', JStr ''Loft''),
                     (''userId'', JStr ''ann'')]) \<and>
   fst (handle (OfferController_later ''upload'' (\<lambda>b. []) (\<lambda>b. []))
          (example_request Get ''/000000000000000000000001'' None)
          (snd (handle (OfferController_later ''upload'' (\<lambda>b. []) (\<lambda>b. []))
                  ((example_request Post ''/'' (Some ''ann''))\<lparr> body := JObj [(''title'', JStr ''Loft'')] \<rparr>)
                  example_world))) =
     Inr (200, JObj [(''id'', JStr ''000000000000000000000001''), (''title'', JStr ''Loft''),
                     (''userId'', JStr ''ann'')])"
proof -
  let ?L = "OfferController_later ''upload'' (\<lambda>b. []) (\<lambda>b. [])"
  let ?req = "(example_request Post ''/'' (Some ''ann''))\<lparr> body := JObj [(''title'', JStr ''Loft'')] \<rparr>"
  let ?get = "example_request Get ''/000000000000000000000001'' None"
  have m: "req_method ?req = Post" by (simp add: example_request_def)
  have u: "segments (req_url ?req) = []" by (simp add: example_request_def segments_def)
  have a: "user ?req = Some ''ann''" by (simp add: example_request_def)
  have v: "(\<lambda>b. []) (body ?req) = ([] :: string list)" by simp
  have i: "object_id_of (next_id example_world) = ''000000000000000000000001''"
    by code_simp
  have f: "lookup_offer (JStr (object_id_of (next_id example_world))) example_world = None"
    unfolding i by (simp add: lookup_offer_def example_world_def)
  have g: "req_method ?get = Get \<and> segments (req_url ?get) = [''000000000000000000000001'']"
    by (simp add: example_request_def segments_def)
  have h: "snd (handle ?L ?req example_world) =
       example_world\<lparr> offers := offers example_world @
                          [(''000000000000000000000001'', [(''title'', JStr ''Loft''), (''userId'', JStr ''ann'')])],
                      next_id := 2,
                      calls := [OfferCreate (JObj [(''title'', JStr ''Loft''), (''userId'', JStr ''ann'')]),
                                OfferFindById (JStr ''000000000000000000000001'')] \<rparr>"
    unfolding handle_later_create [where C = "\<lambda>b. []", OF m u a v]
    using later_create_eq [of "?req\<lparr> params := [] \<rparr>" "''ann''" example_world] a f
    by (simp add: Let_def i offer_create_def called_def spread_def)
       (simp add: example_request_def example_world_def)
  have d: "fst (offer_findById (JStr ''000000000000000000000001'') (snd (handle ?L ?req example_world))) =
             JObj [(''id'', JStr ''000000000000000000000001''), (''title'', JStr ''Loft''),
                   (''userId'', JStr ''ann'')]"
    unfolding h by (simp add: offer_findById_def lookup_offer_def entity_def example_world_def)
  show ?thesis
    using C4_create_then_show [where CreateOfferDto = "\<lambda>b. []", OF m u a v f, of "''upload''" "\<lambda>b. []"] g
    unfolding i Let_def d
    by (simp add: fillDTO_def fillOne_def OfferResponse_def)
qed

subsection \<open>Showing an absent offer in the early revision\<close>

lemma early_show_absent:
  "lookup_offer (dict_get (params req) ''offerId'') s = None \<Longrightarrow>
   early_show req s = (Inl (HttpError 501 ''Not implemented'' ''OfferContorller''),
                       called (OfferFindById (dict_get (params req) ''offerId'')) s)"
  by (simp add: early_show_def offer_findById_def falsy_def NOT_IMPLEMENTED_def)

lemma handle_early_get_one:
  "req_method req = Get \<Longrightarrow> segments (req_url req) = [i] \<Longrightarrow>
   handle OfferController_early req s = early_show (req\<lparr> params := [(''offerId'', i)] \<rparr>) s"
  by (simp add: handle_def dispatch_early_get_one)

text \<open>
  C5. By the spec an absent result of findById is the cue for a 404, and the delete,
  update and getComments handlers of the same revision throw NOT_FOUND. The show
  handler of the early revision throws an HttpError with the status NOT_IMPLEMENTED
  (501) and the message "Not implemented" instead: here for a well-formed id that no
  offer has.
\<close>

theorem C5_early_show_answers_501:
  "handle OfferController_early (example_request Get ''/00000000000000000000000b'' None) example_world =
     (Inl (HttpError 501 ''Not implemented'' ''OfferContorller''),
      called (OfferFindById (JStr ''00000000000000000000000b'')) example_world)"
proof -
  let ?req = "example_request Get ''/00000000000000000000000b'' None"
  have m: "req_method ?req = Get" by (simp add: example_request_def)
  have u: "segments (req_url ?req) = [''00000000000000000000000b'']"
    by (simp add: example_request_def segments_def)
  have e: "lookup_offer (dict_get (params (?req\<lparr> params := [(''offerId'', ''00000000000000000000000b'')] \<rparr>)) ''offerId'') example_world = None"
    by (simp add: lookup_offer_def example_world_def dict_get_def)
  show ?thesis
    unfolding handle_early_get_one [OF m u] early_show_absent [OF e]
    by (simp add: dict_get_def)
qed

subsection \<open>GET /favorite\<close>

text \<open>
  C8. The early revision adds the route \<open>/:offerId\<close> before \<open>/favorite\<close>, so a GET
  request for \<open>/favorite\<close> is dispatched to its show handler with the offer id
  "favorite": the only service call is findById, findFavorite is never invoked, and
  the answer is the error 501 of show instead of 200 with the favorite offer of the
  world.
\<close>

theorem C8_early_favorite_reaches_show:
  "handle OfferController_early (example_request Get ''/favorite'' None) example_world =
     (Inl (HttpError 501 ''Not implemented'' ''OfferContorller''),
      example_world\<lparr> calls := [OfferFindById (JStr ''favorite'')] \<rparr>)"
proof -
  let ?req = "example_request Get ''/favorite'' None"
  have m: "req_method ?req = Get" by (simp add: example_request_def)
  have u: "segments (req_url ?req) = [''favorite'']"
    by (simp add: example_request_def segments_def)
  have e: "lookup_offer (dict_get (params (?req\<lparr> params := [(''offerId'', ''favorite'')] \<rparr>)) ''offerId'') example_world = None"
    by (simp add: lookup_offer_def example_world_def dict_get_def)
  show ?thesis
    unfolding handle_early_get_one [OF m u] early_show_absent [OF e]
    by (simp add: dict_get_def called_def example_world_def)
qed

text \<open>The later revision adds \<open>/favorite\<close> first and calls findFavorite without an argument.\<close>

lemma later_favorite:
  "req_method req = Get \<Longrightarrow> segments (req_url req) = [''favorite''] \<Longrightarrow>
   handle (OfferController_later dir C U) req s =
     (Inr (200, fillDTO OffersResponse (JArr (map entity
        (filter (\<lambda>d. map_of (snd d) ''isFavorite'' = Some (JBool True)) (offers s))))),
      called (OfferFindFavorite []) s)"
  by (simp add: handle_def dispatch_later_get_favorite later_findFavorite_def offer_findFavorite_def
        send_def OK_def limited_def limit_of_def)

subsection \<open>Routes without an existence check\<close>

text \<open>
  The four other routes with an offer id do have the existence check: for a
  well-formed id that no offer has they end with 404 before their handler runs.
\<close>

lemma later_existence_checked:
  assumes "isValidObjectId i" and "lookup_offer (JStr i) s = None"
    and "(req_method req = Get \<and> segments (req_url req) = [i]) \<or>
         (req_method req = Get \<and> segments (req_url req) = [i, ''comments'']) \<or>
         (req_method req = Delete \<and> segments (req_url req) = [i] \<and> user req \<noteq> None) \<or>
         (req_method req = Patch \<and> segments (req_url req) = [i] \<and> user req \<noteq> None \<and> U (body req) = [])"
  shows "handle (OfferController_later dir C U) req s =
           (Inl (HttpError 404 (''Offer with '' @ i @ '' not found.'') ''DocumentExistsMiddleware''),
            called (OfferExists (JStr i)) s)"
proof -
  have "length i = 24" using assms(1) by (simp add: isValidObjectId_def)
  then have nf: "i \<noteq> ''favorite''" by auto
  from assms(3) show ?thesis
    using assms(1,2) nf
    by (elim disjE conjE)
       (auto simp: handle_def dispatch_later_get_id dispatch_later_get_comments
          dispatch_later_delete_id dispatch_later_patch_id dict_get_def offer_exists_def
          to_text_def NOT_FOUND_def)
qed

text \<open>
  C2. The routes \<open>/:offerId/previewImage\<close> and \<open>/:offerId/offerImages\<close> of the later
  revision have no DocumentExistsMiddleware. For a well-formed id that no offer has,
  an authenticated request reaches uploadImages and uploadImage: each calls updateById
  and answers 201.
\<close>

theorem C2_upload_handlers_run_for_absent_offer:
  "lookup_offer (JStr ''00000000000000000000000b'') example_world = None \<and>
   handle (OfferController_later ''upload'' (\<lambda>b. []) (\<lambda>b. []))
     ((example_request Post ''/00000000000000000000000b/offerImages'' (Some ''ann''))
        \<lparr> multipart := [(''image'', ''a.png''), (''image'', ''b.png'')] \<rparr>) example_world =
     (Inr (201, JObj [(''offerImages'', JArr [JStr ''a.png'', JStr ''b.png''])]),
      example_world\<lparr> calls := [OfferUpdateById (JStr ''00000000000000000000000b'')
                                  (JObj [(''offerImages'', JArr [JStr ''a.png'', JStr ''b.png''])])] \<rparr>) \<and>
   handle (OfferController_later ''upload'' (\<lambda>b. []) (\<lambda>b. []))
     ((example_request Post ''/00000000000000000000000b/previewImage'' (Some ''ann''))
        \<lparr> multipart := [(''image'', ''a.png'')] \<rparr>) example_world =
     (Inr (201, JObj []),
      example_world\<lparr> calls := [OfferUpdateById (JStr ''00000000000000000000000b'')
                                  (JObj [(''previewImage'', JStr ''a.png'')])] \<rparr>)"
proof -
  let ?i = "''00000000000000000000000b''"
  let ?r1 = "(example_request Post ''/00000000000000000000000b/offerImages'' (Some ''ann''))
        \<lparr> multipart := [(''image'', ''a.png''), (''image'', ''b.png'')] \<rparr>"
  let ?r2 = "(example_request Post ''/00000000000000000000000b/previewImage'' (Some ''ann''))
        \<lparr> multipart := [(''image'', ''a.png'')] \<rparr>"
  have e: "lookup_offer (JStr ?i) example_world = None"
    by (simp add: lookup_offer_def example_world_def)
  have v: "isValidObjectId ?i"
    by (simp add: isValidObjectId_def is_hex_digit_def)
  have m1: "req_method ?r1 = Post" and u1: "segments (req_url ?r1) = [?i, ''offerImages'']"
    by (simp_all add: example_request_def segments_def)
  have m2: "req_method ?r2 = Post" and u2: "segments (req_url ?r2) = [?i, ''previewImage'']"
    by (simp_all add: example_request_def segments_def)
  have a: "handle (OfferController_later ''upload'' (\<lambda>b. []) (\<lambda>b. [])) ?r1 example_world =
     (Inr (201, JObj [(''offerImages'', JArr [JStr ''a.png'', JStr ''b.png''])]),
      example_world\<lparr> calls := [OfferUpdateById (JStr ?i)
                                  (JObj [(''offerImages'', JArr [JStr ''a.png'', JStr ''b.png''])])] \<rparr>)"
    using e v
    by (simp add: handle_def dispatch_later_post_offerImages [OF m1 u1] uploadImages_def
          offer_updateById_def dict_get_def created_def send_def CREATED_def fillDTO_def fillOne_def
          UploadImagesResponse_def called_def)
       (simp add: example_request_def example_world_def Let_def)
  have b: "handle (OfferController_later ''upload'' (\<lambda>b. []) (\<lambda>b. [])) ?r2 example_world =
     (Inr (201, JObj []),
      example_world\<lparr> calls := [OfferUpdateById (JStr ?i) (JObj [(''previewImage'', JStr ''a.png'')])] \<rparr>)"
    using e v
    by (simp add: handle_def dispatch_later_post_previewImage [OF m2 u2] uploadImage_def
          offer_updateById_def dict_get_def created_def send_def CREATED_def fillDTO_def fillOne_def
          UploadImageResponse_def called_def)
       (simp add: example_request_def example_world_def Let_def)
  from e a b show ?thesis by simp
qed

end
